theory Spec2Isabelle
  imports Main
begin

section \<open>Data model of \<open>messaging/nats.go\<close>\<close>

text \<open>
  Go errors are interface values compared by identity. The only error this file
  tells apart is the sentinel \<open>nats.ErrSlowConsumer\<close>; every other error value is
  \<open>OtherError\<close>, named by its message.
\<close>

datatype go_error = ErrSlowConsumer | OtherError string

text \<open>A nil-pointer dereference ends a Go call with a run-time panic.\<close>

datatype 'a outcome = Done 'a | Panic

text \<open>
  Modelled from the spec: the TLS settings type \<open>tls.Config\<close> of this repository's
  \<open>tls\<close> package, whose declaration is not among the sources; the fields are those that
  \<open>nats.go\<close> reads. The \<open>crypto/tls\<close> configuration object that its \<open>TLSConfig()\<close> method
  builds is an opaque handle.
\<close>

record tls_conf =
  CAFiles :: "string list"
  KeyFile :: string
  CertFile :: string

datatype tls_settings = TLSSettings nat

record NatsConfig =
  TLS :: "tls_conf option"
  DiscoveryName :: string
  Servers :: "string list"
  LogsSubject :: string

text \<open>
  Modelled from the spec: the endpoint type of this repository's \<open>discovery\<close> package,
  whose declaration is not among the sources; a lookup returns an ordered sequence of
  target and port. \<open>nats.go\<close> reads \<open>Target\<close> with \<open>%s\<close> and \<open>Port\<close> with \<open>%d\<close>: the port is
  an integer, of whatever Go integer type.
\<close>

record endpoint =
  Target :: string
  Port :: int

text \<open>The \<open>nats.Status\<close> enumeration, a connection handle and a subscription.
  \<open>Status\<close> is what \<open>conn.Status()\<close> returns at the time of the call and \<open>Pending\<close>
  what \<open>sub.Pending()\<close> returns: the error, or the pending message and byte counts.\<close>

datatype status = DISCONNECTED | CONNECTED | CLOSED | RECONNECTING | CONNECTING

record conn =
  conn_id :: nat
  Status :: status

record subscription =
  Subject :: string
  Queue :: string
  Pending :: "go_error + int \<times> int"

subsection \<open>The logger\<close>

text \<open>
  A \<open>logrus.Entry\<close> carries a map of fields; \<open>WithField\<close>, \<open>WithFields\<close> and
  \<open>WithError\<close> return an entry with the new fields laid over the old ones, and
  \<open>Debug\<close>/\<open>Error\<close> emit one record with the entry's fields.
\<close>

datatype field_value = FString string | FStatus status | FInt int | FError go_error

type_synonym Fields = "string \<rightharpoonup> field_value"

record Entry =
  Data :: Fields

datatype level = DebugLevel | ErrorLevel

record log_record =
  rec_level :: level
  rec_message :: string
  rec_fields :: Fields

definition WithField :: "Entry \<Rightarrow> string \<Rightarrow> field_value \<Rightarrow> Entry" where
  "WithField e k v = e\<lparr>Data := (Data e)(k \<mapsto> v)\<rparr>"

definition WithFields :: "Entry \<Rightarrow> Fields \<Rightarrow> Entry" where
  "WithFields e fs = e\<lparr>Data := Data e ++ fs\<rparr>"

definition WithError :: "Entry \<Rightarrow> go_error \<Rightarrow> Entry" where
  "WithError e err = WithField e ''error'' (FError err)"

definition emit :: "level \<Rightarrow> Entry \<Rightarrow> string \<Rightarrow> log_record" where
  "emit l e msg = \<lparr>rec_level = l, rec_message = msg, rec_fields = Data e\<rparr>"

subsection \<open>External calls\<close>

text \<open>
  What the error-handler callback does to the outside: it reads the connection status,
  it may ask the subscription for its pending counts, and it emits a log record.
\<close>

datatype handler_event =
    StatusCall conn
  | PendingCall subscription
  | Emit log_record

type_synonym ErrHandler =
  "conn option \<Rightarrow> subscription option \<Rightarrow> go_error \<Rightarrow> handler_event list outcome"

text \<open>Connection options of the transport; \<open>'h\<close> is the type of error-handler callbacks.\<close>

datatype 'h nats_option = Secure tls_settings | ErrorHandlerOption 'h

text \<open>
  The collaborators of the connect path: \<open>discovery.DiscoverEndpoints\<close>, the method
  \<open>TLSConfig()\<close> of the TLS settings and \<open>nats.Connect\<close>. Each is a Go function returning a
  value and an error, and returns no value beside a non-nil error: \<open>Inl\<close> is the non-nil
  error, \<open>Inr\<close> the value beside a nil one. \<open>TLSConfig()\<close> may return a nil configuration
  with a nil error.
\<close>

record 'h env =
  DiscoverEndpoints :: "string \<Rightarrow> go_error + endpoint list"
  TLSConfig :: "tls_conf \<Rightarrow> go_error + tls_settings option"
  Connect :: "string \<Rightarrow> 'h nats_option list \<Rightarrow> go_error + conn"

datatype 'h call =
    DiscoverEndpointsCall string
  | TLSConfigCall tls_conf
  | ConnectCall string "'h nats_option list"
  | AddHookCall "conn option" string
  | LogCall log_record

section \<open>Library functions used by the file\<close>

text \<open>\<open>strings.Join\<close>: the empty string, the only element, or the first element followed
  by the separator and each further element, written in a loop.\<close>

fun Join :: "string list \<Rightarrow> string \<Rightarrow> string" where
  "Join [] sep = []"
| "Join [a] sep = a"
| "Join (a # rest) sep = foldl (\<lambda>b s. b @ sep @ s) a rest"

text \<open>The verb \<open>%d\<close>: decimal digits, most significant first, after a minus sign for a
  negative number. \<open>digit\<close> is applied to numbers below ten only.\<close>

definition digit :: "nat \<Rightarrow> char" where
  "digit d = ''0123456789'' ! d"

fun FormatUint :: "nat \<Rightarrow> string" where
  "FormatUint n = (if n < 10 then [digit n] else FormatUint (n div 10) @ [digit (n mod 10)])"

declare FormatUint.simps [simp del]

definition FormatInt :: "int \<Rightarrow> string" where
  "FormatInt i = (if i < 0 then CHR ''-'' # FormatUint (nat (- i)) else FormatUint (nat i))"

text \<open>\<open>fmt.Sprintf("nats://%s:%d", target, port)\<close>.\<close>

definition Sprintf_nats :: "string \<Rightarrow> int \<Rightarrow> string" where
  "Sprintf_nats target port = ''nats://'' @ target @ '':'' @ FormatInt port"

section \<open>The functions of \<open>nats.go\<close>\<close>

definition ServerString :: "NatsConfig \<Rightarrow> string" where
  "ServerString config = Join (Servers config) '',''"

text \<open>\<open>discoverNatsURLs\<close>: the lookup, then a loop appending one URL per endpoint.\<close>

definition discoverNatsURLs :: "'h env \<Rightarrow> string \<Rightarrow> 'h call list \<times> (go_error + string list)" where
  "discoverNatsURLs env serviceName =
     (case DiscoverEndpoints env serviceName of
        Inl err \<Rightarrow> ([DiscoverEndpointsCall serviceName], Inl err)
      | Inr endpoints \<Rightarrow>
          ([DiscoverEndpointsCall serviceName],
           Inr (foldl (\<lambda>natsURLs ep. natsURLs @ [Sprintf_nats (Target ep) (Port ep)]) [] endpoints)))"

text \<open>
  \<open>ConnectToNats\<close>. The configuration is behind a pointer, which the function
  dereferences at once: a nil pointer is a panic. The result carries the configuration
  as the call leaves it, then the calls made to the collaborators, in order, then the
  returned pair (connection, error).
\<close>

definition ConnectToNats ::
  "'h env \<Rightarrow> NatsConfig option \<Rightarrow> 'h option \<Rightarrow>
     (NatsConfig \<times> 'h call list \<times> conn option \<times> go_error option) outcome" where
  "ConnectToNats env config errHandler =
     (case config of
        None \<Rightarrow> Panic
      | Some cfg0 \<Rightarrow>
          (case (if DiscoveryName cfg0 \<noteq> [] then
                   (case discoverNatsURLs env (DiscoveryName cfg0) of
                      (tr, Inl err) \<Rightarrow> (tr, Inl err)
                    | (tr, Inr servers) \<Rightarrow> (tr, Inr (cfg0\<lparr>Servers := servers\<rparr>)))
                 else ([], Inr cfg0)) of
             (tr1, Inl err) \<Rightarrow> Done (cfg0, tr1, None, Some err)
           | (tr1, Inr cfg) \<Rightarrow>
               (case (case TLS cfg of
                        None \<Rightarrow> ([], Inr [])
                      | Some t \<Rightarrow>
                          (case TLSConfig env t of
                             Inl err \<Rightarrow> ([TLSConfigCall t], Inl err)
                           | Inr None \<Rightarrow> ([TLSConfigCall t], Inr [])
                           | Inr (Some tlsConfig) \<Rightarrow> ([TLSConfigCall t], Inr [Secure tlsConfig]))) of
                  (tr2, Inl err) \<Rightarrow> Done (cfg, tr1 @ tr2, None, Some err)
                | (tr2, Inr options0) \<Rightarrow>
                    (let options = (case errHandler of
                                      None \<Rightarrow> options0
                                    | Some h \<Rightarrow> options0 @ [ErrorHandlerOption h]);
                         s = ServerString cfg
                     in (case Connect env s options of
                           Inl err \<Rightarrow> Done (cfg, tr1 @ tr2 @ [ConnectCall s options], None, Some err)
                         | Inr nc \<Rightarrow> Done (cfg, tr1 @ tr2 @ [ConnectCall s options], Some nc, None))))))"

text \<open>
  \<open>ErrorHandler\<close>: the callback bound to a logger. The subscription and the connection
  come as pointers. The callback reads \<open>sub.Subject\<close> and \<open>sub.Queue\<close>, then calls
  \<open>conn.Status()\<close>, which locks the connection it is called on: a nil subscription, and
  after it a nil connection, end the call with a panic. The variables \<open>err\<close> and \<open>l\<close> that
  the slow-consumer branch may overwrite are bound again after it, with the list of
  fetches made.
\<close>

definition ErrorHandler :: "Entry \<Rightarrow> ErrHandler" where
  "ErrorHandler log =
     (let errLogger = WithField log ''component'' (FString ''error-logger'')
      in (\<lambda>conn sub natsErr.
            (case sub of
               None \<Rightarrow> Panic
             | Some s \<Rightarrow>
                 (case conn of
                    None \<Rightarrow> Panic
                  | Some c \<Rightarrow>
                      (let l = WithFields errLogger
                                 [''subject'' \<mapsto> FString (Subject s),
                                  ''group'' \<mapsto> FString (Queue s),
                                  ''conn_status'' \<mapsto> FStatus (Status c)];
                           (err, l, fetch) =
                             (if natsErr = ErrSlowConsumer then
                                (case Pending s of
                                   Inl perr \<Rightarrow> (perr, l, [PendingCall s])
                                 | Inr (pendingMsgs, pendingBytes) \<Rightarrow>
                                     (natsErr, WithField l ''pending_messages'' (FInt pendingMsgs),
                                      [PendingCall s]))
                              else (natsErr, l, []))
                       in Done ([StatusCall c] @ fetch @
                                [Emit (emit ErrorLevel (WithError l err)
                                         (''Error while consuming from '' @ Subject s))]))))))"

text \<open>\<open>ConfigureNatsConnection\<close>: the same shape of result as \<open>ConnectToNats\<close>, the
  configuration pointer being nil or not.\<close>

definition ConfigureNatsConnection ::
  "ErrHandler env \<Rightarrow> NatsConfig option \<Rightarrow> Entry \<Rightarrow>
     (NatsConfig option \<times> ErrHandler call list \<times> conn option \<times> go_error option) outcome" where
  "ConfigureNatsConnection env config log =
     (case config of
        None \<Rightarrow>
          Done (None,
                [LogCall (emit DebugLevel log ''Skipping nats connection because there is no config'')],
                None, None)
      | Some _ \<Rightarrow>
          (case ConnectToNats env config (Some (ErrorHandler log)) of
             Panic \<Rightarrow> Panic
           | Done (cfg, tr, nc, err) \<Rightarrow>
               (case err of
                  Some e \<Rightarrow> Done (Some cfg, tr, None, Some e)
                | None \<Rightarrow>
                    if LogsSubject cfg \<noteq> [] then
                      Done (Some cfg,
                            tr @ [AddHookCall nc (LogsSubject cfg),
                                  LogCall (emit DebugLevel
                                    (WithField log ''subject'' (FString (LogsSubject cfg)))
                                    ''Configured nats hook for logrus'')],
                            nc, None)
                    else Done (Some cfg, tr, nc, None))))"

section \<open>Notions of the specification\<close>

text \<open>The comma-join of an address list: the addresses in order, a comma between
  neighbours.\<close>

fun comma_join :: "string list \<Rightarrow> string" where
  "comma_join [] = []"
| "comma_join [a] = a"
| "comma_join (a # b # rest) = a @ '','' @ comma_join (b # rest)"

text \<open>The server string \<open>nats://h1:p1,nats://h2:p2,...\<close> of a list of endpoints.\<close>

fun nats_server_string :: "endpoint list \<Rightarrow> string" where
  "nats_server_string [] = []"
| "nats_server_string [e] = ''nats://'' @ Target e @ '':'' @ FormatInt (Port e)"
| "nats_server_string (e # e' # es) =
     ''nats://'' @ Target e @ '':'' @ FormatInt (Port e) @ '','' @ nats_server_string (e' # es)"

text \<open>The server strings and the option lists handed to the connect primitive during
  a run, read off the calls it made.\<close>

fun connect_strings :: "'h call list \<Rightarrow> string list" where
  "connect_strings [] = []"
| "connect_strings (ConnectCall s opts # tr) = s # connect_strings tr"
| "connect_strings (c # tr) = connect_strings tr"

fun connect_options :: "'h call list \<Rightarrow> 'h nats_option list list" where
  "connect_options [] = []"
| "connect_options (ConnectCall s opts # tr) = opts # connect_options tr"
| "connect_options (c # tr) = connect_options tr"

fun is_Secure :: "'h nats_option \<Rightarrow> bool" where
  "is_Secure (Secure t) = True"
| "is_Secure (ErrorHandlerOption h) = False"

text \<open>The discovery step fails: a lookup is configured and returns an error. The TLS
  step fails: settings are present and the builder returns an error.\<close>

definition discovery_fails :: "'h env \<Rightarrow> NatsConfig \<Rightarrow> bool" where
  "discovery_fails env cfg =
     (DiscoveryName cfg \<noteq> [] \<and> isl (DiscoverEndpoints env (DiscoveryName cfg)))"

definition tls_build_fails :: "'h env \<Rightarrow> NatsConfig \<Rightarrow> bool" where
  "tls_build_fails env cfg = (case TLS cfg of None \<Rightarrow> False | Some t \<Rightarrow> isl (TLSConfig env t))"

text \<open>A call made to a collaborator fails with error \<open>e\<close>: the lookup, the TLS builder or
  the connect primitive, asked again with the same arguments, returns \<open>e\<close>.\<close>

fun call_fails_with :: "'h env \<Rightarrow> 'h call \<Rightarrow> go_error \<Rightarrow> bool" where
  "call_fails_with env (DiscoverEndpointsCall n) e = (DiscoverEndpoints env n = Inl e)"
| "call_fails_with env (TLSConfigCall t) e = (TLSConfig env t = Inl e)"
| "call_fails_with env (ConnectCall s opts) e = (Connect env s opts = Inl e)"
| "call_fails_with env (AddHookCall nc subj) e = False"
| "call_fails_with env (LogCall r) e = False"

section \<open>Example inputs\<close>

definition example_conn :: conn where
  "example_conn = \<lparr>conn_id = 1, Status = CONNECTED\<rparr>"

definition example_endpoints :: "endpoint list" where
  "example_endpoints =
     [\<lparr>Target = ''10.0.0.1'', Port = 4222\<rparr>, \<lparr>Target = ''nats-b'', Port = 4223\<rparr>]"

definition example_tls :: tls_conf where
  "example_tls = \<lparr>CAFiles = [''ca.pem''], KeyFile = ''key.pem'', CertFile = ''cert.pem''\<rparr>"

text \<open>A world in which every collaborator succeeds (the TLS builder with a nil
  configuration), and three in which one of them fails.\<close>

definition env_up :: "ErrHandler env" where
  "env_up = \<lparr>DiscoverEndpoints = (\<lambda>n. Inr example_endpoints),
              TLSConfig = (\<lambda>t. Inr None),
              Connect = (\<lambda>s opts. Inr example_conn)\<rparr>"

definition env_no_discovery :: "ErrHandler env" where
  "env_no_discovery = env_up\<lparr>DiscoverEndpoints := (\<lambda>n. Inl (OtherError ''no such host''))\<rparr>"

definition env_bad_tls :: "ErrHandler env" where
  "env_bad_tls = env_up\<lparr>TLSConfig := (\<lambda>t. Inl (OtherError ''bad certificate''))\<rparr>"

definition env_refused :: "ErrHandler env" where
  "env_refused = env_up\<lparr>Connect := (\<lambda>s opts. Inl (OtherError ''connection refused''))\<rparr>"

definition cfg_discovered :: NatsConfig where
  "cfg_discovered =
     \<lparr>TLS = None, DiscoveryName = ''nats.service'', Servers = [''nats://old:1''],
      LogsSubject = []\<rparr>"

definition cfg_static :: NatsConfig where
  "cfg_static =
     \<lparr>TLS = Some example_tls, DiscoveryName = [],
      Servers = [''nats://a:4222'', ''nats://b:4222'', ''nats://a:4222''], LogsSubject = ''logs''\<rparr>"

definition example_log :: Entry where
  "example_log = \<lparr>Data = [''app'' \<mapsto> FString ''api'']\<rparr>"

definition log_with_pending :: Entry where
  "log_with_pending = \<lparr>Data = [''pending_messages'' \<mapsto> FInt 5]\<rparr>"

definition sub_counting :: subscription where
  "sub_counting = \<lparr>Subject = ''orders'', Queue = ''workers'', Pending = Inr (42, 1024)\<rparr>"

definition sub_broken :: subscription where
  "sub_broken =
     \<lparr>Subject = ''orders'', Queue = [], Pending = Inl (OtherError ''invalid subscription'')\<rparr>"

section \<open>Library facts\<close>

lemma foldl_snoc_map: "foldl (\<lambda>acc x. acc @ [f x]) acc xs = acc @ map f xs"
  by (induction xs arbitrary: acc) simp_all

lemma foldl_sep: "foldl (\<lambda>b s. b @ sep @ s) a rest = a @ concat (map (\<lambda>s. sep @ s) rest)"
  by (induction rest arbitrary: a) simp_all

lemma Join_Cons: "Join (a # rest) sep = a @ concat (map (\<lambda>s. sep @ s) rest)"
  by (cases rest) (simp_all add: foldl_sep)

lemma comma_join_Cons: "comma_join (a # rest) = a @ concat (map (\<lambda>s. '','' @ s) rest)"
  by (induction rest arbitrary: a) simp_all

lemma Join_comma_join: "Join xs '','' = comma_join xs"
proof (cases xs)
  case Nil
  then show ?thesis by simp
next
  case (Cons a rest)
  then show ?thesis
    by (simp only: Join_Cons comma_join_Cons)
qed

lemma comma_join_urls:
  "comma_join (map (\<lambda>ep. Sprintf_nats (Target ep) (Port ep)) eps) = nats_server_string eps"
  by (induction eps rule: nats_server_string.induct) (simp_all add: Sprintf_nats_def)

lemma FormatInt_4222: "FormatInt 4222 = ''4222''"
  by (simp add: FormatInt_def FormatUint.simps digit_def)

lemma FormatInt_4223: "FormatInt 4223 = ''4223''"
  by (simp add: FormatInt_def FormatUint.simps digit_def)

lemmas example_defs = example_conn_def example_endpoints_def example_tls_def env_up_def
  env_no_discovery_def env_bad_tls_def env_refused_def cfg_discovered_def cfg_static_def
  example_log_def sub_counting_def sub_broken_def

section \<open>The steps of \<open>ConnectToNats\<close>\<close>

lemma discoverNatsURLs_ok:
  "DiscoverEndpoints env n = Inr eps \<Longrightarrow>
   discoverNatsURLs env n =
     ([DiscoverEndpointsCall n], Inr (map (\<lambda>ep. Sprintf_nats (Target ep) (Port ep)) eps))"
  by (simp add: discoverNatsURLs_def foldl_snoc_map)

text \<open>With a configuration behind the pointer the call returns; it never panics.\<close>

lemma ConnectToNats_total:
  "\<exists>cfg' tr nc err. ConnectToNats env (Some cfg) h = Done (cfg', tr, nc, err)"
  by (auto simp: ConnectToNats_def Let_def split: option.splits sum.splits prod.splits)

text \<open>A failing call is the last one of the run, and its error is the run's error.\<close>

lemma ConnectToNats_failed_call:
  assumes "ConnectToNats env (Some cfg) h = Done (cfg', tr, nc, err)"
    and "c \<in> set tr" and "call_fails_with env c e"
  shows "nc = None \<and> err = Some e"
  using assms
  by (cases c)
     (auto simp: ConnectToNats_def discoverNatsURLs_def Let_def
       split: option.splits sum.splits prod.splits if_splits)

lemma ConfigureNatsConnection_error:
  assumes "ConnectToNats env (Some cfg) (Some (ErrorHandler log)) = Done (cfg', tr, nc, Some e)"
  shows "ConfigureNatsConnection env (Some cfg) log = Done (Some cfg', tr, None, Some e)"
  using assms by (simp add: ConfigureNatsConnection_def)

lemma ConfigureNatsConnection_success:
  assumes "ConnectToNats env (Some cfg) (Some (ErrorHandler log)) = Done (cfg', tr, nc, None)"
  shows "\<exists>tr'. ConfigureNatsConnection env (Some cfg) log = Done (Some cfg', tr @ tr', nc, None) \<and>
               (\<forall>c \<in> set tr'. \<forall>e. \<not> call_fails_with env c e)"
  using assms by (simp add: ConfigureNatsConnection_def)

section \<open>Server addresses\<close>

text \<open>
  C1. For a configuration with a non-empty discovery name whose lookup returns the
  endpoints \<open>eps\<close>, \<open>ConnectToNats\<close> returns, the server list it leaves in the
  configuration is one \<open>nats://host:port\<close> address per endpoint in discovery order, and
  the server string handed to the connect primitive is \<open>nats://h1:p1,nats://h2:p2,...\<close>,
  whatever the server list held before. The connect primitive is called once with that
  string, unless the TLS builder fails, in which case it is not called.
\<close>

theorem discovered_server_string:
  assumes "DiscoveryName cfg \<noteq> []"
    and "DiscoverEndpoints env (DiscoveryName cfg) = Inr eps"
  shows "\<exists>cfg' tr nc err.
           ConnectToNats env (Some cfg) h = Done (cfg', tr, nc, err) \<and>
           Servers cfg' = map (\<lambda>ep. ''nats://'' @ Target ep @ '':'' @ FormatInt (Port ep)) eps \<and>
           connect_strings tr =
             (if tls_build_fails env cfg then [] else [nats_server_string eps])"
proof -
  let ?urls = "map (\<lambda>ep. Sprintf_nats (Target ep) (Port ep)) eps"
  have urls: "?urls = map (\<lambda>ep. ''nats://'' @ Target ep @ '':'' @ FormatInt (Port ep)) eps"
    by (simp add: Sprintf_nats_def)
  have "\<exists>tr nc err.
          ConnectToNats env (Some cfg) h = Done (cfg\<lparr>Servers := ?urls\<rparr>, tr, nc, err) \<and>
          connect_strings tr =
            (if tls_build_fails env cfg then [] else [nats_server_string eps])"
    using assms
    by (auto simp: ConnectToNats_def discoverNatsURLs_ok ServerString_def Join_comma_join
        comma_join_urls tls_build_fails_def Let_def split: option.splits sum.splits)
  then obtain tr nc err
    where run: "ConnectToNats env (Some cfg) h = Done (cfg\<lparr>Servers := ?urls\<rparr>, tr, nc, err)"
      and strs: "connect_strings tr =
            (if tls_build_fails env cfg then [] else [nats_server_string eps])"
    by blast
  have "Servers (cfg\<lparr>Servers := ?urls\<rparr>) =
          map (\<lambda>ep. ''nats://'' @ Target ep @ '':'' @ FormatInt (Port ep)) eps"
    using urls by simp
  with run strs show ?thesis by blast
qed

theorem discovered_server_string_witness:
  "DiscoveryName cfg_discovered \<noteq> [] \<and>
   DiscoverEndpoints env_up (DiscoveryName cfg_discovered) = Inr example_endpoints \<and>
   (\<exists>cfg' tr nc err.
      ConnectToNats env_up (Some cfg_discovered) None = Done (cfg', tr, nc, err) \<and>
      Servers cfg' = [''nats://10.0.0.1:4222'', ''nats://nats-b:4223''] \<and>
      connect_strings tr = [''nats://10.0.0.1:4222,nats://nats-b:4223''])"
  using discovered_server_string [of cfg_discovered env_up example_endpoints None]
  by (simp add: example_defs tls_build_fails_def FormatInt_4222 FormatInt_4223)

text \<open>
  C5. For a configuration with an empty discovery name, \<open>ConnectToNats\<close> returns, leaves
  the configuration as it was, makes no lookup, and the server string handed to the
  connect primitive is the comma-join of the configured servers, in their order and
  with every element as it is. The connect primitive is called once with that string,
  unless the TLS builder fails, in which case it is not called.
\<close>

theorem static_server_string:
  assumes "DiscoveryName cfg = []"
  shows "\<exists>tr nc err.
           ConnectToNats env (Some cfg) h = Done (cfg, tr, nc, err) \<and>
           (\<forall>n. DiscoverEndpointsCall n \<notin> set tr) \<and>
           connect_strings tr =
             (if tls_build_fails env cfg then [] else [comma_join (Servers cfg)])"
  using assms
  by (auto simp: ConnectToNats_def ServerString_def Join_comma_join
      tls_build_fails_def Let_def split: option.splits sum.splits)

theorem static_server_string_witness:
  "DiscoveryName cfg_static = [] \<and>
   (\<exists>tr nc err.
      ConnectToNats env_up (Some cfg_static) None = Done (cfg_static, tr, nc, err) \<and>
      (\<forall>n. DiscoverEndpointsCall n \<notin> set tr) \<and>
      connect_strings tr = [''nats://a:4222,nats://b:4222,nats://a:4222''])"
  using static_server_string [of cfg_static env_up None]
  by (simp add: example_defs tls_build_fails_def)

section \<open>Failures before the connection\<close>

text \<open>
  C2. With a configuration behind the pointer, \<open>ConnectToNats\<close> and
  \<open>ConfigureNatsConnection\<close> return; and when a call they made to the discovery lookup,
  to the TLS builder or to the connect primitive failed with error \<open>e\<close>, they return no
  connection together with \<open>e\<close> itself.
\<close>

theorem failures_returned_unmodified:
  "(\<exists>cfg' tr nc err.
      ConnectToNats env (Some cfg) h = Done (cfg', tr, nc, err) \<and>
      (\<forall>c \<in> set tr. \<forall>e. call_fails_with env c e \<longrightarrow> nc = None \<and> err = Some e)) \<and>
   (\<exists>cfg' tr nc err.
      ConfigureNatsConnection env (Some cfg) log = Done (cfg', tr, nc, err) \<and>
      (\<forall>c \<in> set tr. \<forall>e. call_fails_with env c e \<longrightarrow> nc = None \<and> err = Some e))"
proof
  obtain cfg' tr nc err
    where run: "ConnectToNats env (Some cfg) h = Done (cfg', tr, nc, err)"
    using ConnectToNats_total by blast
  then show "\<exists>cfg' tr nc err.
      ConnectToNats env (Some cfg) h = Done (cfg', tr, nc, err) \<and>
      (\<forall>c \<in> set tr. \<forall>e. call_fails_with env c e \<longrightarrow> nc = None \<and> err = Some e)"
    using ConnectToNats_failed_call [OF run] by blast
next
  obtain cfg' tr nc err
    where run: "ConnectToNats env (Some cfg) (Some (ErrorHandler log)) = Done (cfg', tr, nc, err)"
    using ConnectToNats_total by blast
  show "\<exists>cfg' tr nc err.
      ConfigureNatsConnection env (Some cfg) log = Done (cfg', tr, nc, err) \<and>
      (\<forall>c \<in> set tr. \<forall>e. call_fails_with env c e \<longrightarrow> nc = None \<and> err = Some e)"
  proof (cases err)
    case (Some e')
    with run have conf: "ConfigureNatsConnection env (Some cfg) log = Done (Some cfg', tr, None, Some e')"
      by (simp add: ConfigureNatsConnection_error)
    have "Some e' = Some e" if "c \<in> set tr" and "call_fails_with env c e" for c e
      using ConnectToNats_failed_call [OF run that] Some by simp
    with conf show ?thesis by blast
  next
    case None
    with run obtain tr'
      where conf: "ConfigureNatsConnection env (Some cfg) log = Done (Some cfg', tr @ tr', nc, None)"
        and quiet: "\<forall>c \<in> set tr'. \<forall>e. \<not> call_fails_with env c e"
      using ConfigureNatsConnection_success by blast
    have "\<not> call_fails_with env c e" if "c \<in> set (tr @ tr')" for c e
    proof (cases "c \<in> set tr")
      case True
      show ?thesis
      proof
        assume "call_fails_with env c e"
        from ConnectToNats_failed_call [OF run True this] None show False by simp
      qed
    next
      case False
      with that quiet show ?thesis by simp
    qed
    with conf show ?thesis by blast
  qed
qed

theorem failures_returned_unmodified_witness:
  "(DiscoverEndpointsCall ''nats.service'' \<in> set [DiscoverEndpointsCall ''nats.service''] \<and>
    call_fails_with env_no_discovery (DiscoverEndpointsCall ''nats.service'')
      (OtherError ''no such host'') \<and>
    ConnectToNats env_no_discovery (Some cfg_discovered) None =
      Done (cfg_discovered, [DiscoverEndpointsCall ''nats.service''], None,
            Some (OtherError ''no such host'')) \<and>
    ConfigureNatsConnection env_no_discovery (Some cfg_discovered) example_log =
      Done (Some cfg_discovered, [DiscoverEndpointsCall ''nats.service''], None,
            Some (OtherError ''no such host''))) \<and>
   (call_fails_with env_bad_tls (TLSConfigCall example_tls) (OtherError ''bad certificate'') \<and>
    ConnectToNats env_bad_tls (Some cfg_static) None =
      Done (cfg_static, [TLSConfigCall example_tls], None, Some (OtherError ''bad certificate'')) \<and>
    ConfigureNatsConnection env_bad_tls (Some cfg_static) example_log =
      Done (Some cfg_static, [TLSConfigCall example_tls], None,
            Some (OtherError ''bad certificate''))) \<and>
   (call_fails_with env_refused
      (ConnectCall ''nats://a:4222,nats://b:4222,nats://a:4222''
         [ErrorHandlerOption (ErrorHandler example_log)])
      (OtherError ''connection refused'') \<and>
    ConnectToNats env_refused (Some cfg_static) (Some (ErrorHandler example_log)) =
      Done (cfg_static,
            [TLSConfigCall example_tls,
             ConnectCall ''nats://a:4222,nats://b:4222,nats://a:4222''
               [ErrorHandlerOption (ErrorHandler example_log)]],
            None, Some (OtherError ''connection refused'')) \<and>
    ConfigureNatsConnection env_refused (Some cfg_static) example_log =
      Done (Some cfg_static,
            [TLSConfigCall example_tls,
             ConnectCall ''nats://a:4222,nats://b:4222,nats://a:4222''
               [ErrorHandlerOption (ErrorHandler example_log)]],
            None, Some (OtherError ''connection refused'')))"
proof -
  have a: "ConnectToNats env_no_discovery (Some cfg_discovered) None =
      Done (cfg_discovered, [DiscoverEndpointsCall ''nats.service''], None,
            Some (OtherError ''no such host''))"
    using failures_returned_unmodified [of env_no_discovery cfg_discovered None example_log]
    by (simp add: ConnectToNats_def discoverNatsURLs_def env_no_discovery_def env_up_def
        cfg_discovered_def)
  have a': "ConfigureNatsConnection env_no_discovery (Some cfg_discovered) example_log =
      Done (Some cfg_discovered, [DiscoverEndpointsCall ''nats.service''], None,
            Some (OtherError ''no such host''))"
    using failures_returned_unmodified [of env_no_discovery cfg_discovered None example_log]
    by (simp add: ConfigureNatsConnection_def ConnectToNats_def discoverNatsURLs_def
        env_no_discovery_def env_up_def cfg_discovered_def)
  have b: "ConnectToNats env_bad_tls (Some cfg_static) None =
      Done (cfg_static, [TLSConfigCall example_tls], None, Some (OtherError ''bad certificate''))"
    using failures_returned_unmodified [of env_bad_tls cfg_static None example_log]
    by (simp add: ConnectToNats_def env_bad_tls_def env_up_def cfg_static_def)
  have b': "ConfigureNatsConnection env_bad_tls (Some cfg_static) example_log =
      Done (Some cfg_static, [TLSConfigCall example_tls], None,
            Some (OtherError ''bad certificate''))"
    using failures_returned_unmodified [of env_bad_tls cfg_static None example_log]
    by (simp add: ConfigureNatsConnection_def ConnectToNats_def env_bad_tls_def env_up_def
        cfg_static_def)
  have c: "ConnectToNats env_refused (Some cfg_static) (Some (ErrorHandler example_log)) =
      Done (cfg_static,
            [TLSConfigCall example_tls,
             ConnectCall ''nats://a:4222,nats://b:4222,nats://a:4222''
               [ErrorHandlerOption (ErrorHandler example_log)]],
            None, Some (OtherError ''connection refused''))"
    using failures_returned_unmodified
      [of env_refused cfg_static "Some (ErrorHandler example_log)" example_log]
    by (simp add: ConnectToNats_def ServerString_def env_refused_def env_up_def cfg_static_def)
  have c': "ConfigureNatsConnection env_refused (Some cfg_static) example_log =
      Done (Some cfg_static,
            [TLSConfigCall example_tls,
             ConnectCall ''nats://a:4222,nats://b:4222,nats://a:4222''
               [ErrorHandlerOption (ErrorHandler example_log)]],
            None, Some (OtherError ''connection refused''))"
    using c by (simp add: ConfigureNatsConnection_def)
  have d: "call_fails_with env_no_discovery (DiscoverEndpointsCall ''nats.service'')
             (OtherError ''no such host'')"
    by (simp add: env_no_discovery_def env_up_def)
  have e: "call_fails_with env_bad_tls (TLSConfigCall example_tls) (OtherError ''bad certificate'')"
    by (simp add: env_bad_tls_def env_up_def)
  have f: "call_fails_with env_refused
      (ConnectCall ''nats://a:4222,nats://b:4222,nats://a:4222''
         [ErrorHandlerOption (ErrorHandler example_log)])
      (OtherError ''connection refused'')"
    by (simp add: env_refused_def env_up_def)
  from a a' b b' c c' d e f show ?thesis by simp
qed

section \<open>The configuration after the call\<close>

text \<open>
  C3, as the code has it. When \<open>ConnectToNats\<close> returns, every field of the
  configuration other than \<open>Servers\<close> is as it was. \<open>Servers\<close> is as it was when the
  discovery name is empty or the lookup fails; when the lookup succeeds, \<open>Servers\<close> holds
  the discovered addresses, one \<open>nats://host:port\<close> per endpoint in discovery order.
\<close>

theorem config_after_connect:
  assumes "ConnectToNats env (Some cfg) h = Done (cfg', tr, nc, err)"
  shows "TLS cfg' = TLS cfg \<and> DiscoveryName cfg' = DiscoveryName cfg \<and>
         LogsSubject cfg' = LogsSubject cfg \<and>
         Servers cfg' =
           (if DiscoveryName cfg = [] then Servers cfg
            else case DiscoverEndpoints env (DiscoveryName cfg) of
                   Inl e \<Rightarrow> Servers cfg
                 | Inr eps \<Rightarrow> map (\<lambda>ep. ''nats://'' @ Target ep @ '':'' @ FormatInt (Port ep)) eps)"
  using assms
  by (auto simp: ConnectToNats_def discoverNatsURLs_def Let_def foldl_snoc_map Sprintf_nats_def
      split: option.splits sum.splits prod.splits if_splits)

theorem config_after_connect_witness:
  "ConnectToNats env_refused (Some cfg_discovered) None =
     Done (cfg_discovered\<lparr>Servers := [''nats://10.0.0.1:4222'', ''nats://nats-b:4223'']\<rparr>,
           [DiscoverEndpointsCall ''nats.service'',
            ConnectCall ''nats://10.0.0.1:4222,nats://nats-b:4223'' []],
           None, Some (OtherError ''connection refused'')) \<and>
   TLS (cfg_discovered\<lparr>Servers := [''nats://10.0.0.1:4222'', ''nats://nats-b:4223'']\<rparr>) = None \<and>
   DiscoveryName (cfg_discovered\<lparr>Servers := [''nats://10.0.0.1:4222'', ''nats://nats-b:4223'']\<rparr>)
     = ''nats.service'' \<and>
   LogsSubject (cfg_discovered\<lparr>Servers := [''nats://10.0.0.1:4222'', ''nats://nats-b:4223'']\<rparr>)
     = [] \<and>
   Servers (cfg_discovered\<lparr>Servers := [''nats://10.0.0.1:4222'', ''nats://nats-b:4223'']\<rparr>) =
     map (\<lambda>ep. ''nats://'' @ Target ep @ '':'' @ FormatInt (Port ep)) example_endpoints"
proof -
  have run: "ConnectToNats env_refused (Some cfg_discovered) None =
     Done (cfg_discovered\<lparr>Servers := [''nats://10.0.0.1:4222'', ''nats://nats-b:4223'']\<rparr>,
           [DiscoverEndpointsCall ''nats.service'',
            ConnectCall ''nats://10.0.0.1:4222,nats://nats-b:4223'' []],
           None, Some (OtherError ''connection refused''))"
    by (simp add: ConnectToNats_def discoverNatsURLs_def ServerString_def Sprintf_nats_def
        example_defs FormatInt_4222 FormatInt_4223)
  from config_after_connect [OF run] run show ?thesis
    by (simp add: example_defs)
qed

text \<open>
  C3, as stated, fails: with the discovery name \<open>nats.service\<close> and a lookup that
  succeeds, the call replaces the server list \<open>[nats://old:1]\<close> of the caller's
  configuration by the two discovered addresses.
\<close>

theorem config_unchanged_counterexample:
  "ConnectToNats env_up (Some cfg_discovered) None =
     Done (cfg_discovered\<lparr>Servers := [''nats://10.0.0.1:4222'', ''nats://nats-b:4223'']\<rparr>,
           [DiscoverEndpointsCall ''nats.service'',
            ConnectCall ''nats://10.0.0.1:4222,nats://nats-b:4223'' []],
           Some example_conn, None) \<and>
   Servers cfg_discovered = [''nats://old:1''] \<and>
   cfg_discovered\<lparr>Servers := [''nats://10.0.0.1:4222'', ''nats://nats-b:4223'']\<rparr>
     \<noteq> cfg_discovered"
  by (simp add: ConnectToNats_def discoverNatsURLs_def ServerString_def Sprintf_nats_def
      example_defs FormatInt_4222 FormatInt_4223)

section \<open>No configuration\<close>

text \<open>
  C6. With a nil configuration \<open>ConfigureNatsConnection\<close> returns no connection and no
  error; the only thing it does is write one debug record, so it makes no lookup, builds
  no TLS settings and does not connect; and the result is the same at every call,
  whatever the collaborators would answer.
\<close>

theorem no_config_no_connection:
  "ConfigureNatsConnection env None log =
     Done (None,
           [LogCall \<lparr>rec_level = DebugLevel,
                     rec_message = ''Skipping nats connection because there is no config'',
                     rec_fields = Data log\<rparr>],
           None, None) \<and>
   ConfigureNatsConnection env' None log = ConfigureNatsConnection env None log"
  by (simp add: ConfigureNatsConnection_def emit_def)

section \<open>TLS settings\<close>

text \<open>
  C7. For a configuration with TLS settings whose builder returns a nil configuration and
  no error, \<open>ConnectToNats\<close> returns and no option list it hands to the connect primitive
  holds a secure-transport option. Unless the discovery lookup failed before the builder
  was reached, the connect primitive is called once, and what \<open>ConnectToNats\<close> returns is
  what that call returns: the TLS step contributes no error.
\<close>

theorem empty_tls_adds_no_option:
  assumes "TLS cfg = Some t" and "TLSConfig env t = Inr None"
  shows "\<exists>cfg' tr nc err.
           ConnectToNats env (Some cfg) h = Done (cfg', tr, nc, err) \<and>
           (\<forall>opts \<in> set (connect_options tr). \<not> list_ex is_Secure opts) \<and>
           (\<not> discovery_fails env cfg \<longrightarrow>
              (\<exists>opts. connect_options tr = [opts] \<and>
                 (nc, err) = (case Connect env (ServerString cfg') opts of
                                Inl e \<Rightarrow> (None, Some e)
                              | Inr c \<Rightarrow> (Some c, None))))"
  using assms
  by (auto simp: ConnectToNats_def discoverNatsURLs_def discovery_fails_def Let_def
      split: option.splits sum.splits)

theorem empty_tls_adds_no_option_witness:
  "TLS cfg_static = Some example_tls \<and> TLSConfig env_up example_tls = Inr None \<and>
   \<not> discovery_fails env_up cfg_static \<and>
   ConnectToNats env_up (Some cfg_static) (Some (ErrorHandler example_log)) =
     Done (cfg_static,
           [TLSConfigCall example_tls,
            ConnectCall ''nats://a:4222,nats://b:4222,nats://a:4222''
              [ErrorHandlerOption (ErrorHandler example_log)]],
           Some example_conn, None) \<and>
   \<not> list_ex is_Secure [ErrorHandlerOption (ErrorHandler example_log)]"
proof -
  have hyps: "TLS cfg_static = Some example_tls" "TLSConfig env_up example_tls = Inr None"
    by (simp_all add: cfg_static_def env_up_def)
  have run: "ConnectToNats env_up (Some cfg_static) (Some (ErrorHandler example_log)) =
     Done (cfg_static,
           [TLSConfigCall example_tls,
            ConnectCall ''nats://a:4222,nats://b:4222,nats://a:4222''
              [ErrorHandlerOption (ErrorHandler example_log)]],
           Some example_conn, None)"
    by (simp add: ConnectToNats_def ServerString_def cfg_static_def env_up_def)
  have "\<not> discovery_fails env_up cfg_static"
    by (simp add: discovery_fails_def cfg_static_def)
  with empty_tls_adds_no_option [OF hyps, of "Some (ErrorHandler example_log)"] hyps run
  show ?thesis by simp
qed

section \<open>The error handler\<close>

text \<open>
  C4. When the callback gets the slow-consumer error and the pending-count fetch on the
  subscription fails with error \<open>E\<close>, it emits one record whose error field is \<open>E\<close>. The
  fields of the record are those of the bound logger with the component, subject, group,
  connection status and error laid over them: no pending-message count is attached, and
  the record has none unless the bound logger carried one.
\<close>

theorem pending_failure_supersedes:
  assumes "Pending s = Inl E"
  shows "\<exists>r. ErrorHandler log (Some c) (Some s) ErrSlowConsumer =
               Done [StatusCall c, PendingCall s, Emit r] \<and>
             rec_fields r ''error'' = Some (FError E) \<and>
             rec_fields r =
               (Data log)(''component'' \<mapsto> FString ''error-logger'',
                          ''subject'' \<mapsto> FString (Subject s), ''group'' \<mapsto> FString (Queue s),
                          ''conn_status'' \<mapsto> FStatus (Status c), ''error'' \<mapsto> FError E) \<and>
             (Data log ''pending_messages'' = None \<longrightarrow> rec_fields r ''pending_messages'' = None)"
  using assms
  by (simp add: ErrorHandler_def Let_def emit_def WithError_def WithField_def WithFields_def)

theorem pending_failure_supersedes_witness:
  "Pending sub_broken = Inl (OtherError ''invalid subscription'') \<and>
   Data example_log ''pending_messages'' = None \<and>
   (\<exists>r. ErrorHandler example_log (Some example_conn) (Some sub_broken) ErrSlowConsumer =
           Done [StatusCall example_conn, PendingCall sub_broken, Emit r] \<and>
         rec_fields r ''error'' = Some (FError (OtherError ''invalid subscription'')) \<and>
         rec_fields r ''pending_messages'' = None)"
proof -
  have hyp: "Pending sub_broken = Inl (OtherError ''invalid subscription'')"
    by (simp add: sub_broken_def)
  have quiet: "Data example_log ''pending_messages'' = None"
    by (simp add: example_log_def)
  from pending_failure_supersedes [OF hyp, of example_log example_conn] hyp quiet
  show ?thesis by auto
qed

text \<open>
  C8. When the callback gets the slow-consumer error and the pending-count fetch returns
  the message count \<open>n\<close>, it emits one record with \<open>pending_messages = n\<close> and the
  slow-consumer error as its error field.
\<close>

theorem pending_count_attached:
  assumes "Pending s = Inr (n, b)"
  shows "\<exists>r. ErrorHandler log (Some c) (Some s) ErrSlowConsumer =
               Done [StatusCall c, PendingCall s, Emit r] \<and>
             rec_level r = ErrorLevel \<and>
             rec_fields r ''pending_messages'' = Some (FInt n) \<and>
             rec_fields r ''error'' = Some (FError ErrSlowConsumer)"
  using assms
  by (simp add: ErrorHandler_def Let_def emit_def WithError_def WithField_def WithFields_def)

theorem pending_count_attached_witness:
  "Pending sub_counting = Inr (42, 1024) \<and>
   (\<exists>r. ErrorHandler example_log (Some example_conn) (Some sub_counting) ErrSlowConsumer =
           Done [StatusCall example_conn, PendingCall sub_counting, Emit r] \<and>
         rec_level r = ErrorLevel \<and>
         rec_fields r ''pending_messages'' = Some (FInt 42) \<and>
         rec_fields r ''error'' = Some (FError ErrSlowConsumer))"
proof -
  have hyp: "Pending sub_counting = Inr (42, 1024)"
    by (simp add: sub_counting_def)
  from pending_count_attached [OF hyp, of example_log example_conn] hyp
  show ?thesis by simp
qed

text \<open>
  C9, as the code has it. When the callback gets an error other than the slow-consumer
  error, it fetches no pending count and emits one record, at error level, that names
  the subject in its message and carries the subscription's subject, its queue name,
  the connection's status and the error it was given. The fields of the record are
  those of the bound logger with the component and these four laid over them: the
  callback attaches no pending-message count, and the record's \<open>pending_messages\<close> field
  is the bound logger's own, absent when the logger carries none.
\<close>

theorem other_error_record:
  assumes "natsErr \<noteq> ErrSlowConsumer"
  shows "\<exists>r. ErrorHandler log (Some c) (Some s) natsErr = Done [StatusCall c, Emit r] \<and>
             rec_level r = ErrorLevel \<and>
             rec_message r = ''Error while consuming from '' @ Subject s \<and>
             rec_fields r ''subject'' = Some (FString (Subject s)) \<and>
             rec_fields r ''group'' = Some (FString (Queue s)) \<and>
             rec_fields r ''conn_status'' = Some (FStatus (Status c)) \<and>
             rec_fields r ''error'' = Some (FError natsErr) \<and>
             rec_fields r =
               (Data log)(''component'' \<mapsto> FString ''error-logger'',
                          ''subject'' \<mapsto> FString (Subject s), ''group'' \<mapsto> FString (Queue s),
                          ''conn_status'' \<mapsto> FStatus (Status c), ''error'' \<mapsto> FError natsErr) \<and>
             rec_fields r ''pending_messages'' = Data log ''pending_messages''"
  using assms
  by (simp add: ErrorHandler_def Let_def emit_def WithError_def WithField_def WithFields_def)

theorem other_error_record_witness:
  "OtherError ''stale connection'' \<noteq> ErrSlowConsumer \<and>
   Data example_log ''pending_messages'' = None \<and>
   (\<exists>r. ErrorHandler example_log (Some example_conn) (Some sub_counting)
           (OtherError ''stale connection'') = Done [StatusCall example_conn, Emit r] \<and>
         rec_fields r ''subject'' = Some (FString ''orders'') \<and>
         rec_fields r ''group'' = Some (FString ''workers'') \<and>
         rec_fields r ''conn_status'' = Some (FStatus CONNECTED) \<and>
         rec_fields r ''error'' = Some (FError (OtherError ''stale connection'')) \<and>
         rec_fields r ''pending_messages'' = None)"
proof -
  have hyp: "OtherError ''stale connection'' \<noteq> ErrSlowConsumer"
    by simp
  have quiet: "Data example_log ''pending_messages'' = None"
    by (simp add: example_log_def)
  from other_error_record [OF hyp, of example_log example_conn sub_counting] quiet
  show ?thesis by (auto simp: sub_counting_def example_conn_def)
qed

text \<open>
  C9, as stated, fails: bound to a logger that already carries \<open>pending_messages = 5\<close>,
  the callback called with an error other than the slow-consumer error emits a record
  that has a \<open>pending_messages\<close> field, the logger's.
\<close>

theorem other_error_pending_counterexample:
  "ErrorHandler log_with_pending (Some example_conn) (Some sub_counting)
     (OtherError ''stale connection'') =
     Done [StatusCall example_conn,
           Emit \<lparr>rec_level = ErrorLevel,
                 rec_message = ''Error while consuming from orders'',
                 rec_fields = [''pending_messages'' \<mapsto> FInt 5,
                               ''component'' \<mapsto> FString ''error-logger'',
                               ''subject'' \<mapsto> FString ''orders'',
                               ''group'' \<mapsto> FString ''workers'',
                               ''conn_status'' \<mapsto> FStatus CONNECTED,
                               ''error'' \<mapsto> FError (OtherError ''stale connection'')]\<rparr>] \<and>
   OtherError ''stale connection'' \<noteq> ErrSlowConsumer \<and>
   [''pending_messages'' \<mapsto> FInt 5,
    ''component'' \<mapsto> FString ''error-logger'',
    ''subject'' \<mapsto> FString ''orders'',
    ''group'' \<mapsto> FString ''workers'',
    ''conn_status'' \<mapsto> FStatus CONNECTED,
    ''error'' \<mapsto> FError (OtherError ''stale connection'')] ''pending_messages'' = Some (FInt 5)"
  by (simp add: ErrorHandler_def Let_def emit_def WithError_def WithField_def WithFields_def
      log_with_pending_def sub_counting_def example_conn_def)

text \<open>
  C10. The callback reads the subscription and the connection before it looks at the
  error: whatever the error, it panics exactly when the subscription or the connection
  is nil, and then emits nothing; with both present it returns.
\<close>

theorem handler_panics_on_nil:
  "(ErrorHandler log conn sub natsErr = Panic) = (conn = None \<or> sub = None)"
  by (simp add: ErrorHandler_def Let_def split: option.splits sum.splits prod.splits)

end
